theory Spec2Isabelle
  imports Complex_Main "HOL-Library.Sublist"
begin

section \<open>Numbers\<close>

text \<open>
  A JavaScript Number is not-a-number, one of the two infinities, or a finite value.
  Finite values are carried as reals; the rounding that the engine applies after every
  arithmetic operation is a parameter \<open>rnd\<close> of the operations, mapping the exact result
  to the Number that is returned. Two roundings are used: \<open>exact\<close> (no rounding, no
  overflow) and \<open>binary64\<close> (IEEE 754 double precision, round to nearest, ties to even).
  Negative zero is not distinguished from zero: the program never divides by a zero and
  \<open>toFixed\<close> prints both zeros alike. Where a property speaks of every quantity above zero
  or in a range, the quantity is a finite number \<open>Num x\<close>.
\<close>

datatype jsnum = NaN | NInf | Num real | PInf

type_synonym rounding = "real \<Rightarrow> jsnum"

definition exact :: rounding where
  "exact x = Num x"

definition ties_even :: "real \<Rightarrow> int" where
  "ties_even r =
     (if r - of_int \<lfloor>r\<rfloor> < 1 / 2 then \<lfloor>r\<rfloor>
      else if 1 / 2 < r - of_int \<lfloor>r\<rfloor> then \<lfloor>r\<rfloor> + 1
      else if even \<lfloor>r\<rfloor> then \<lfloor>r\<rfloor> else \<lfloor>r\<rfloor> + 1)"

definition binade :: "real \<Rightarrow> int" where
  \<comment> \<open>exponent of the binade of \<open>x\<close>; subnormal numbers share the least exponent\<close>
  "binade x = max \<lfloor>log 2 \<bar>x\<bar>\<rfloor> (- 1022)"

definition ulp :: "real \<Rightarrow> real" where
  \<comment> \<open>spacing of the doubles in the binade of \<open>x\<close>: 53 significant bits\<close>
  "ulp x = 2 powr of_int (binade x - 52)"

definition binary64 :: rounding where
  "binary64 x =
     (if x = 0 then Num 0
      else if 2 ^ 1024 \<le> \<bar>of_int (ties_even (x / ulp x)) * ulp x\<bar>
        then (if 0 < x then PInf else NInf)
      else Num (of_int (ties_even (x / ulp x)) * ulp x))"

subsection \<open>Comparison\<close>

text \<open>The relational operators: every comparison with not-a-number is false.\<close>

fun num_lt :: "jsnum \<Rightarrow> jsnum \<Rightarrow> bool" where
  "num_lt NaN _ = False"
| "num_lt _ NaN = False"
| "num_lt (Num a) (Num b) = (a < b)"
| "num_lt x PInf = (x \<noteq> PInf)"
| "num_lt NInf y = (y \<noteq> NInf)"
| "num_lt _ _ = False"

fun num_le :: "jsnum \<Rightarrow> jsnum \<Rightarrow> bool" where
  "num_le NaN _ = False"
| "num_le _ NaN = False"
| "num_le (Num a) (Num b) = (a \<le> b)"
| "num_le x PInf = True"
| "num_le NInf y = True"
| "num_le _ _ = False"

definition num_gt :: "jsnum \<Rightarrow> jsnum \<Rightarrow> bool" where
  "num_gt x y = num_lt y x"

definition num_ge :: "jsnum \<Rightarrow> jsnum \<Rightarrow> bool" where
  "num_ge x y = num_le y x"

fun strict_eq :: "jsnum \<Rightarrow> jsnum \<Rightarrow> bool" where
  \<comment> \<open>\<open>===\<close> on two Numbers\<close>
  "strict_eq NaN _ = False"
| "strict_eq _ NaN = False"
| "strict_eq x y = (x = y)"

fun isNaN :: "jsnum \<Rightarrow> bool" where
  "isNaN NaN = True"
| "isNaN _ = False"

subsection \<open>Arithmetic\<close>

fun num_neg :: "jsnum \<Rightarrow> jsnum" where
  "num_neg NaN = NaN"
| "num_neg NInf = PInf"
| "num_neg PInf = NInf"
| "num_neg (Num a) = Num (- a)"

fun num_mul :: "rounding \<Rightarrow> jsnum \<Rightarrow> jsnum \<Rightarrow> jsnum" where
  "num_mul rnd NaN _ = NaN"
| "num_mul rnd _ NaN = NaN"
| "num_mul rnd (Num a) (Num b) = rnd (a * b)"
| "num_mul rnd (Num a) y = (if a = 0 then NaN else if 0 < a then y else num_neg y)"
| "num_mul rnd x (Num b) = (if b = 0 then NaN else if 0 < b then x else num_neg x)"
| "num_mul rnd x y = (if x = y then PInf else NInf)"

fun num_div :: "rounding \<Rightarrow> jsnum \<Rightarrow> jsnum \<Rightarrow> jsnum" where
  "num_div rnd NaN _ = NaN"
| "num_div rnd _ NaN = NaN"
| "num_div rnd (Num a) (Num b) =
     (if b = 0 then (if a = 0 then NaN else if 0 < a then PInf else NInf)
      else rnd (a / b))"
| "num_div rnd (Num a) y = Num 0"
| "num_div rnd x (Num b) = (if 0 \<le> b then x else num_neg x)"
| "num_div rnd x y = NaN"

fun num_sub :: "rounding \<Rightarrow> jsnum \<Rightarrow> jsnum \<Rightarrow> jsnum" where
  "num_sub rnd NaN _ = NaN"
| "num_sub rnd _ NaN = NaN"
| "num_sub rnd (Num a) (Num b) = rnd (a - b)"
| "num_sub rnd (Num a) y = num_neg y"
| "num_sub rnd x (Num b) = x"
| "num_sub rnd x y = (if x = y then NaN else x)"

fun num_pow2 :: "rounding \<Rightarrow> jsnum \<Rightarrow> jsnum" where
  \<comment> \<open>\<open>x ** 2\<close>\<close>
  "num_pow2 rnd NaN = NaN"
| "num_pow2 rnd (Num a) = rnd (a\<^sup>2)"
| "num_pow2 rnd _ = PInf"

text \<open>
  The square root, the arc cosine and \<open>Math.PI\<close> are the mathematical values, rounded as
  every other result. Engines compute the square root so (IEEE 754 requires it); the
  precision of the arc cosine is left to the engine, so \<open>phase_angle_deg\<close> takes the
  arc cosine of the engine as a parameter, and the registry runs it with the correctly
  rounded one.
\<close>

fun Math_sqrt :: "rounding \<Rightarrow> jsnum \<Rightarrow> jsnum" where
  "Math_sqrt rnd NaN = NaN"
| "Math_sqrt rnd NInf = NaN"
| "Math_sqrt rnd PInf = PInf"
| "Math_sqrt rnd (Num a) = (if a < 0 then NaN else rnd (sqrt a))"

fun Math_acos :: "rounding \<Rightarrow> jsnum \<Rightarrow> jsnum" where
  "Math_acos rnd (Num a) = (if a < - 1 \<or> 1 < a then NaN else rnd (arccos a))"
| "Math_acos rnd _ = NaN"

fun Math_min :: "jsnum \<Rightarrow> jsnum \<Rightarrow> jsnum" where
  "Math_min NaN _ = NaN"
| "Math_min _ NaN = NaN"
| "Math_min x y = (if num_lt y x then y else x)"

fun Math_max :: "jsnum \<Rightarrow> jsnum \<Rightarrow> jsnum" where
  "Math_max NaN _ = NaN"
| "Math_max _ NaN = NaN"
| "Math_max x y = (if num_lt x y then y else x)"

definition Math_PI :: "rounding \<Rightarrow> jsnum" where
  "Math_PI rnd = rnd pi"

section \<open>Pure computation (app.js)\<close>

datatype exn = CalcError string | TypeError

definition ge_sign :: string where
  \<comment> \<open>the character U+2265, in UTF-8\<close>
  "ge_sign = [CHR 0xE2, CHR 0x89, CHR 0xA5]"

definition power_factor :: "rounding \<Rightarrow> jsnum \<Rightarrow> jsnum \<Rightarrow> exn + jsnum" where
  "power_factor rnd p_kw s_kva =
     (if num_le s_kva (Num 0) then Inl (CalcError ''kVA must be > 0'')
      else if num_lt p_kw (Num 0) then Inl (CalcError (''kW must be '' @ ge_sign @ '' 0''))
      else if num_gt p_kw s_kva then Inl (CalcError ''kW cannot exceed kVA'')
      else Inr (num_div rnd p_kw s_kva))"

definition reactive_power_kvar :: "rounding \<Rightarrow> jsnum \<Rightarrow> jsnum \<Rightarrow> exn + jsnum" where
  "reactive_power_kvar rnd s_kva p_kw =
     (if num_le s_kva (Num 0) then Inl (CalcError ''kVA must be > 0'')
      else if num_lt p_kw (Num 0) then Inl (CalcError (''kW must be '' @ ge_sign @ '' 0''))
      else if num_gt p_kw s_kva then Inl (CalcError ''kW cannot exceed kVA'')
      else let val = num_sub rnd (num_pow2 rnd s_kva) (num_pow2 rnd p_kw)
           in Inr (Math_sqrt rnd (if num_gt val (Num 0) then val else Num 0)))"

definition phase_angle_deg ::
  "(jsnum \<Rightarrow> jsnum) \<Rightarrow> rounding \<Rightarrow> jsnum \<Rightarrow> jsnum \<Rightarrow> exn + jsnum" where
  "phase_angle_deg acos rnd s_kva p_kw =
     (case power_factor rnd p_kw s_kva of
        Inl e \<Rightarrow> Inl e
      | Inr q \<Rightarrow>
          let pf = Math_min (Num 1) (Math_max (Num 0) q)
          in Inr (num_mul rnd (num_div rnd (Num 180) (Math_PI rnd)) (acos pf)))"

definition load_kw_single :: "rounding \<Rightarrow> jsnum \<Rightarrow> jsnum \<Rightarrow> jsnum \<Rightarrow> exn + jsnum" where
  "load_kw_single rnd volts amps pf =
     (if num_le volts (Num 0) then Inl (CalcError ''Volts must be > 0'')
      else if num_le amps (Num 0) then Inl (CalcError ''Amps must be > 0'')
      else if \<not> (num_ge pf (Num 0) \<and> num_le pf (Num 1))
        then Inl (CalcError ''Power factor must be between 0 and 1'')
      else Inr (num_div rnd (num_mul rnd (num_mul rnd volts amps) pf) (Num 1000)))"

definition load_kw_three :: "rounding \<Rightarrow> jsnum \<Rightarrow> jsnum \<Rightarrow> jsnum \<Rightarrow> exn + jsnum" where
  "load_kw_three rnd volts amps pf =
     (if num_le volts (Num 0) then Inl (CalcError ''Volts must be > 0'')
      else if num_le amps (Num 0) then Inl (CalcError ''Amps must be > 0'')
      else if \<not> (num_ge pf (Num 0) \<and> num_le pf (Num 1))
        then Inl (CalcError ''Power factor must be between 0 and 1'')
      else Inr (num_div rnd
                 (num_mul rnd (num_mul rnd (num_mul rnd (Math_sqrt rnd (Num 3)) volts) amps) pf)
                 (Num 1000)))"

section \<open>The calculator registry (app.js, \<open>CALCS\<close>)\<close>

text \<open>
  A value read from an object is a Number or \<open>undefined\<close> (a property the object does not
  have). An object with Number properties is a function from property names to values.
  Arithmetic and the relational operators convert their operands with \<open>ToNumber\<close>.
\<close>

datatype jsval = Undefined | Number jsnum

type_synonym obj = "string \<Rightarrow> jsval"

fun ToNumber :: "jsval \<Rightarrow> jsnum" where
  "ToNumber Undefined = NaN"
| "ToNumber (Number x) = x"

fun Number_isNaN :: "jsval \<Rightarrow> bool" where
  \<comment> \<open>\<open>Number.isNaN\<close> does not convert its argument\<close>
  "Number_isNaN (Number x) = isNaN x"
| "Number_isNaN Undefined = False"

fun is_zero :: "jsval \<Rightarrow> bool" where
  \<comment> \<open>\<open>x === 0\<close>\<close>
  "is_zero (Number x) = strict_eq x (Num 0)"
| "is_zero Undefined = False"

definition object :: "(string \<times> jsval) list \<Rightarrow> obj" where
  \<comment> \<open>an object literal\<close>
  "object kvs k = (case map_of kvs k of None \<Rightarrow> Undefined | Some v \<Rightarrow> v)"

definition and_then :: "exn + 'a \<Rightarrow> ('a \<Rightarrow> exn + 'b) \<Rightarrow> exn + 'b" where
  "and_then r f = (case r of Inl e \<Rightarrow> Inl e | Inr x \<Rightarrow> f x)"

abbreviation vir :: "jsnum \<Rightarrow> jsnum \<Rightarrow> jsnum \<Rightarrow> obj" where
  \<comment> \<open>the three quantities of Ohm's law, as parsed values and as a result\<close>
  "vir v i r \<equiv> object [(''volts'', Number v), (''amps'', Number i), (''ohms'', Number r)]"

datatype calc = PowerFactor | ReactivePower | PhaseAngle | OhmsLaw | LoadSingle | LoadThree

fun calc_name :: "calc \<Rightarrow> string" where
  "calc_name PowerFactor = ''Power Factor''"
| "calc_name ReactivePower = ''Reactive Power''"
| "calc_name PhaseAngle = ''Phase Angle''"
| "calc_name OhmsLaw = ''Ohm's Law''"
| "calc_name LoadSingle = ''Load (Single-Phase)''"
| "calc_name LoadThree = ''Load (Three-Phase)''"

fun input_keys :: "calc \<Rightarrow> string list" where
  \<comment> \<open>the \<open>key\<close> of every entry of \<open>inputs\<close>, in order (labels and hints are presentation)\<close>
  "input_keys PowerFactor = [''p_kw'', ''s_kva'']"
| "input_keys ReactivePower = [''s_kva'', ''p_kw'']"
| "input_keys PhaseAngle = [''s_kva'', ''p_kw'']"
| "input_keys OhmsLaw = [''volts'', ''amps'', ''ohms'']"
| "input_keys LoadSingle = [''volts'', ''amps'', ''pf'']"
| "input_keys LoadThree = [''volts'', ''amps'', ''pf'']"

definition ohms_law_compute :: "rounding \<Rightarrow> obj \<Rightarrow> exn + obj" where
  "ohms_law_compute rnd d =
     (let v = d ''volts''; i = d ''amps''; r = d ''ohms'';
          known = length (filter (\<lambda>x. \<not> Number_isNaN x) [v, i, r])
      in if known \<noteq> 2 then Inl (CalcError ''Provide exactly two of V, I, R'')
         else if Number_isNaN v
           then Inr (object [(''volts'', Number (num_mul rnd (ToNumber i) (ToNumber r))),
                             (''amps'', i), (''ohms'', r)])
         else if Number_isNaN i
           then (if is_zero r then Inl (CalcError ''R must not be 0'')
                 else Inr (object [(''volts'', v),
                                   (''amps'', Number (num_div rnd (ToNumber v) (ToNumber r))),
                                   (''ohms'', r)]))
         else if Number_isNaN r
           then (if is_zero i then Inl (CalcError ''I must not be 0'')
                 else Inr (object [(''volts'', v), (''amps'', i),
                                   (''ohms'', Number (num_div rnd (ToNumber v) (ToNumber i)))]))
         else Inr (object [(''volts'', v), (''amps'', i), (''ohms'', r)]))"

fun compute :: "rounding \<Rightarrow> calc \<Rightarrow> obj \<Rightarrow> exn + obj" where
  "compute rnd PowerFactor d =
     and_then (power_factor rnd (ToNumber (d ''p_kw'')) (ToNumber (d ''s_kva'')))
       (\<lambda>x. Inr (object [(''pf'', Number x)]))"
| "compute rnd ReactivePower d =
     and_then (reactive_power_kvar rnd (ToNumber (d ''s_kva'')) (ToNumber (d ''p_kw'')))
       (\<lambda>x. Inr (object [(''q'', Number x)]))"
| "compute rnd PhaseAngle d =
     and_then (phase_angle_deg (Math_acos rnd) rnd (ToNumber (d ''s_kva''))
                 (ToNumber (d ''p_kw'')))
       (\<lambda>x. Inr (object [(''theta'', Number x)]))"
| "compute rnd OhmsLaw d = ohms_law_compute rnd d"
| "compute rnd LoadSingle d =
     and_then (load_kw_single rnd (ToNumber (d ''volts'')) (ToNumber (d ''amps''))
                 (ToNumber (d ''pf'')))
       (\<lambda>x. Inr (object [(''kw'', Number x)]))"
| "compute rnd LoadThree d =
     and_then (load_kw_three rnd (ToNumber (d ''volts'')) (ToNumber (d ''amps''))
                 (ToNumber (d ''pf'')))
       (\<lambda>x. Inr (object [(''kw'', Number x)]))"

subsection \<open>Formatting\<close>

definition digit_char :: "nat \<Rightarrow> char" where
  "digit_char d = ''0123456789'' ! d"

fun digits :: "nat \<Rightarrow> string" where
  \<comment> \<open>the decimal representation of a natural number\<close>
  "digits n = (if n < 10 then [digit_char n] else digits (n div 10) @ [digit_char (n mod 10)])"

declare digits.simps [simp del]

definition fixed_digits :: "nat \<Rightarrow> real \<Rightarrow> string" where
  \<comment> \<open>\<open>toFixed\<close> on \<open>0 \<le> x < 10^21\<close>: the integer \<open>n\<close> nearest to \<open>x * 10^f\<close> (the larger
      one of two), its digits padded to \<open>f + 1\<close> places, and the point before the last \<open>f\<close>\<close>
  "fixed_digits f x =
     (let n = nat \<lfloor>x * 10 ^ f + 1 / 2\<rfloor>;
          m = digits n;
          m = (if length m \<le> f then replicate (f + 1 - length m) CHR ''0'' @ m else m);
          k = length m
      in if f = 0 then m else take (k - f) m @ ''.'' @ drop (k - f) m)"

text \<open>
  \<open>Number.prototype.toFixed\<close>. On a magnitude of \<open>10^21\<close> or more it returns the engine's
  \<open>Number::toString\<close>, the shortest digits that identify the double: that function is the
  parameter \<open>ts\<close>. On \<open>undefined\<close> the method call raises a TypeError.
\<close>

fun toFixed :: "(real \<Rightarrow> string) \<Rightarrow> nat \<Rightarrow> jsval \<Rightarrow> exn + string" where
  "toFixed ts f Undefined = Inl TypeError"
| "toFixed ts f (Number NaN) = Inr ''NaN''"
| "toFixed ts f (Number PInf) = Inr ''Infinity''"
| "toFixed ts f (Number NInf) = Inr ''-Infinity''"
| "toFixed ts f (Number (Num x)) =
     Inr ((if x < 0 then ''-'' else []) @
          (if 10 ^ 21 \<le> \<bar>x\<bar> then ts \<bar>x\<bar> else fixed_digits f \<bar>x\<bar>))"

definition theta_sign :: string where
  \<comment> \<open>U+03B8 in UTF-8\<close>
  "theta_sign = [CHR 0xCE, CHR 0xB8]"

definition degree_sign :: string where
  \<comment> \<open>U+00B0 in UTF-8\<close>
  "degree_sign = [CHR 0xC2, CHR 0xB0]"

definition omega_sign :: string where
  \<comment> \<open>U+03A9 in UTF-8\<close>
  "omega_sign = [CHR 0xCE, CHR 0xA9]"

fun format :: "(real \<Rightarrow> string) \<Rightarrow> calc \<Rightarrow> obj \<Rightarrow> exn + string" where
  "format ts PowerFactor r =
     and_then (toFixed ts 4 (r ''pf'')) (\<lambda>a. Inr (''PF = '' @ a))"
| "format ts ReactivePower r =
     and_then (toFixed ts 3 (r ''q'')) (\<lambda>a. Inr (''Q = '' @ a @ '' kVAr''))"
| "format ts PhaseAngle r =
     and_then (toFixed ts 2 (r ''theta''))
       (\<lambda>a. Inr (theta_sign @ '' = '' @ a @ degree_sign))"
| "format ts OhmsLaw r =
     and_then (toFixed ts 3 (r ''volts'')) (\<lambda>a.
     and_then (toFixed ts 3 (r ''amps'')) (\<lambda>b.
     and_then (toFixed ts 3 (r ''ohms'')) (\<lambda>c.
       Inr (''V='' @ a @ '' V, I='' @ b @ '' A, R='' @ c @ '' '' @ omega_sign))))"
| "format ts LoadSingle r =
     and_then (toFixed ts 3 (r ''kw'')) (\<lambda>a. Inr (''P = '' @ a @ '' kW''))"
| "format ts LoadThree r =
     and_then (toFixed ts 3 (r ''kw'')) (\<lambda>a. Inr (''P = '' @ a @ '' kW''))"

section \<open>The compute button (app.js, UI)\<close>

text \<open>
  The form is the list of its input elements, each with its \<open>data-key\<close> and its text.
  \<open>Number\<close> applied to a string is the engine's, the parameter \<open>to_num\<close>. Text is
  carried in UTF-8; \<open>trim\<close> removes the white space and line terminators of the language.
\<close>

definition white_space :: "string list" where
  "white_space =
     [[CHR 0x09], [CHR 0x0A], [CHR 0x0B], [CHR 0x0C], [CHR 0x0D], [CHR 0x20],
      [CHR 0xC2, CHR 0xA0], [CHR 0xE1, CHR 0x9A, CHR 0x80],
      [CHR 0xE2, CHR 0x80, CHR 0x80], [CHR 0xE2, CHR 0x80, CHR 0x81],
      [CHR 0xE2, CHR 0x80, CHR 0x82], [CHR 0xE2, CHR 0x80, CHR 0x83],
      [CHR 0xE2, CHR 0x80, CHR 0x84], [CHR 0xE2, CHR 0x80, CHR 0x85],
      [CHR 0xE2, CHR 0x80, CHR 0x86], [CHR 0xE2, CHR 0x80, CHR 0x87],
      [CHR 0xE2, CHR 0x80, CHR 0x88], [CHR 0xE2, CHR 0x80, CHR 0x89],
      [CHR 0xE2, CHR 0x80, CHR 0x8A], [CHR 0xE2, CHR 0x80, CHR 0xA8],
      [CHR 0xE2, CHR 0x80, CHR 0xA9], [CHR 0xE2, CHR 0x80, CHR 0xAF],
      [CHR 0xE2, CHR 0x81, CHR 0x9F], [CHR 0xE3, CHR 0x80, CHR 0x80],
      [CHR 0xEF, CHR 0xBB, CHR 0xBF]]"

function trim_start :: "string \<Rightarrow> string" where
  "trim_start s =
     (case find (\<lambda>w. prefix w s) white_space of
        None \<Rightarrow> s
      | Some w \<Rightarrow> if w = [] then s else trim_start (drop (length w) s))"
  by pat_completeness auto
termination
proof (relation "measure length")
  fix s w
  assume "find (\<lambda>w. prefix w s) white_space = Some w" "w \<noteq> []"
  then have "prefix w s" by (auto simp: find_Some_iff)
  with \<open>w \<noteq> []\<close> show "(drop (length w) s, s) \<in> measure length"
    by (cases s) (auto simp: prefix_def)
qed simp

declare trim_start.simps [simp del]

function trim_end :: "string \<Rightarrow> string" where
  "trim_end s =
     (case find (\<lambda>w. suffix w s) white_space of
        None \<Rightarrow> s
      | Some w \<Rightarrow> if w = [] then s else trim_end (take (length s - length w) s))"
  by pat_completeness auto
termination
proof (relation "measure length")
  fix s w
  assume "find (\<lambda>w. suffix w s) white_space = Some w" "w \<noteq> []"
  then have "suffix w s" by (auto simp: find_Some_iff)
  with \<open>w \<noteq> []\<close> show "(take (length s - length w) s, s) \<in> measure length"
    by (cases s) (auto simp: suffix_def)
qed simp

declare trim_end.simps [simp del]

definition trim :: "string \<Rightarrow> string" where
  "trim s = trim_end (trim_start s)"

definition collectInputs :: "(string \<Rightarrow> jsnum) \<Rightarrow> (string \<times> string) list \<Rightarrow> obj" where
  "collectInputs to_num form =
     foldl (\<lambda>values (k, text).
              let raw = trim (filter (\<lambda>c. c \<noteq> CHR '','') text);
                  num = (if raw = [] then NaN else to_num raw)
              in values (k := Number num))
       (\<lambda>k. Undefined) form"

text \<open>
  What the result element shows: \<open>showResult(text, isError)\<close>, or the generic report of an
  exception that is not a CalcError, whose text after \<open>[unexpected]\<close> is the engine's
  description of the exception.
\<close>

datatype shown = Shown string bool | Unexpected exn

definition showResult :: "string \<Rightarrow> bool \<Rightarrow> shown" where
  "showResult text isError = Shown text isError"

fun on_error :: "exn \<Rightarrow> shown" where
  \<comment> \<open>the \<open>catch\<close> block of the click handler\<close>
  "on_error (CalcError message) = showResult (''[error] '' @ message) True"
| "on_error err = Unexpected err"

definition compute_and_show :: "(real \<Rightarrow> string) \<Rightarrow> rounding \<Rightarrow> calc \<Rightarrow> obj \<Rightarrow> shown" where
  \<comment> \<open>the click handler from the parsed values on\<close>
  "compute_and_show ts rnd name parsed =
     (case compute rnd name parsed of
        Inl err \<Rightarrow> on_error err
      | Inr out \<Rightarrow>
          (case format ts name out of
             Inl err \<Rightarrow> on_error err
           | Inr text \<Rightarrow> showResult text False))"

definition compute_click ::
  "(string \<Rightarrow> jsnum) \<Rightarrow> (real \<Rightarrow> string) \<Rightarrow> rounding \<Rightarrow> calc \<Rightarrow> (string \<times> string) list \<Rightarrow> shown" where
  "compute_click to_num ts rnd name form =
     compute_and_show ts rnd name (collectInputs to_num form)"

section \<open>The cache manager (service-worker.js)\<close>

text \<open>
  The cache storage is the list of the named caches in the order of their creation, each
  with the request paths it holds. \<open>Date.now()\<close> is the parameter \<open>now\<close>.
\<close>

type_synonym caches = "(string \<times> string list) list"

definition CACHE :: "nat \<Rightarrow> string" where
  "CACHE now = ''ppc-cache-v2-'' @ digits now"

definition ASSETS :: "string list" where
  "ASSETS =
     [''./'',
      ''./index.html'',
      ''./styles.css'',
      ''./app.js'',
      ''./manifest.json'',
      ''./assets/icon-512.png'',
      ''./assets/icon.svg'',
      ''./assets/background.png'']"

definition Boolean :: "string \<Rightarrow> bool" where
  \<comment> \<open>only the empty string is falsy\<close>
  "Boolean s = (s \<noteq> [])"

definition keys :: "caches \<Rightarrow> string list" where
  "keys cs = map fst cs"

definition cache_delete :: "string \<Rightarrow> caches \<Rightarrow> caches" where
  "cache_delete k cs = filter (\<lambda>c. fst c \<noteq> k) cs"

definition cache_open :: "string \<Rightarrow> caches \<Rightarrow> caches" where
  "cache_open k cs = (if k \<in> set (keys cs) then cs else cs @ [(k, [])])"

definition addAll :: "string \<Rightarrow> string list \<Rightarrow> caches \<Rightarrow> caches" where
  \<comment> \<open>every request is fetched and stored, replacing an entry for the same path\<close>
  "addAll k paths cs =
     map (\<lambda>c. if fst c = k then (k, filter (\<lambda>p. p \<notin> set paths) (snd c) @ remdups paths) else c) cs"

definition install :: "nat \<Rightarrow> caches \<Rightarrow> caches" where
  \<comment> \<open>the two \<open>install\<close> listeners; the first only calls \<open>skipWaiting\<close>\<close>
  "install now cs = addAll (CACHE now) (filter Boolean ASSETS) (cache_open (CACHE now) cs)"

definition activate_first :: "nat \<Rightarrow> caches \<Rightarrow> caches" where
  "activate_first now cs =
     fold cache_delete
       (filter (\<lambda>k. prefix ''ppc-cache-'' k \<and> k \<noteq> CACHE now) (keys cs)) cs"

definition activate_second :: "nat \<Rightarrow> caches \<Rightarrow> caches" where
  "activate_second now cs =
     fold cache_delete (filter (\<lambda>k. k \<noteq> CACHE now) (keys cs)) cs"

definition activate :: "nat \<Rightarrow> caches \<Rightarrow> caches" where
  \<comment> \<open>both listeners run on the event, in the order of their registration\<close>
  "activate now cs = activate_second now (activate_first now cs)"

text \<open>
  The kinds of asset that the specification tells apart, read off the form of the path.
\<close>

datatype asset_kind = Document | Stylesheet | Script | Manifest | Image | Other

definition asset_kind :: "string \<Rightarrow> asset_kind" where
  "asset_kind p =
     (if p = ''./'' \<or> suffix ''.html'' p then Document
      else if suffix ''.css'' p then Stylesheet
      else if suffix ''.js'' p then Script
      else if suffix ''.json'' p then Manifest
      else if suffix ''.png'' p \<or> suffix ''.svg'' p then Image
      else Other)"

section \<open>Rounding to double precision\<close>

text \<open>
  A real within half a unit in the last place of \<open>m / 2^n\<close>, in the same binade, rounds to
  it; rounding keeps zero, one, the sign and the unit interval.
\<close>

lemma ties_even_nearest:
  assumes "of_int m - 1 / 2 < r" "r < of_int m + 1 / 2"
  shows "ties_even r = m"
proof -
  have "\<lfloor>r\<rfloor> = m \<or> \<lfloor>r\<rfloor> = m - 1" using assms by linarith
  then show ?thesis
  proof
    assume "\<lfloor>r\<rfloor> = m"
    moreover from this have "r - of_int m < 1 / 2" using assms by linarith
    ultimately show ?thesis by (simp add: ties_even_def)
  next
    assume f: "\<lfloor>r\<rfloor> = m - 1"
    then have "1 / 2 < r - of_int (m - 1)" using assms by (simp; linarith)
    with f show ?thesis by (simp add: ties_even_def)
  qed
qed

lemma binade_eq:
  assumes "2 powr of_int e \<le> \<bar>x\<bar>" "\<bar>x\<bar> < 2 powr of_int (e + 1)" "- 1022 \<le> e"
  shows "binade x = e"
proof -
  have "(0::real) < 2 powr of_int e" by simp
  with assms(1) have "0 < \<bar>x\<bar>" by linarith
  then have "\<lfloor>log 2 \<bar>x\<bar>\<rfloor> = e"
    using assms by (simp add: floor_log_eq_powr_iff)
  then show ?thesis using assms(3) by (simp add: binade_def)
qed

lemma binary64_nearest:
  fixes n :: nat and m :: int
  assumes lo: "2 ^ 52 / 2 ^ n \<le> \<bar>x\<bar>" and hi: "\<bar>x\<bar> < 2 ^ 53 / 2 ^ n"
    and n: "n \<le> 1074"
    and m1: "of_int m - 1 / 2 < x * 2 ^ n" and m2: "x * 2 ^ n < of_int m + 1 / 2"
  shows "binary64 x = Num (of_int m / 2 ^ n)"
proof -
  have p: "(2::real) powr of_int (52 - int n) = 2 ^ 52 / 2 ^ n"
    by (simp add: powr_diff powr_realpow)
  have q: "(2::real) powr of_int (52 - int n + 1) = 2 ^ 53 / 2 ^ n"
    by (simp add: powr_diff powr_add powr_realpow)
  have b: "binade x = 52 - int n"
  proof (rule binade_eq)
    show "2 powr real_of_int (52 - int n) \<le> \<bar>x\<bar>" using lo by (simp only: p)
    show "\<bar>x\<bar> < 2 powr real_of_int (52 - int n + 1)" using hi by (simp only: q)
    show "- 1022 \<le> 52 - int n" using n by simp
  qed
  have u: "ulp x = 1 / 2 ^ n"
    by (simp add: ulp_def b powr_minus powr_realpow inverse_eq_divide)
  have t: "ties_even (x * 2 ^ n) = m"
    using m1 m2 by (rule ties_even_nearest)
  have "(0::real) < 2 ^ 52 / 2 ^ n" by simp
  then have x0: "x \<noteq> 0" using lo by linarith
  have "\<bar>x\<bar> * 2 ^ n < 2 ^ 53" using hi by (simp add: field_simps)
  then have "\<bar>x * 2 ^ n\<bar> < 2 ^ 53" by (simp add: abs_mult)
  then have "\<bar>real_of_int m\<bar> < 2 ^ 53 + 1" using m1 m2 by linarith
  moreover have "\<bar>real_of_int m\<bar> / 2 ^ n \<le> \<bar>real_of_int m\<bar> / 1"
    by (rule divide_left_mono) simp_all
  ultimately have "\<bar>real_of_int m\<bar> / 2 ^ n < 2 ^ 53 + 1" by simp
  moreover have "(2::real) ^ 53 + 1 < 2 ^ 1024" by simp
  ultimately have "\<bar>real_of_int m\<bar> / 2 ^ n < 2 ^ 1024" by (rule less_trans)
  then have "\<not> 2 ^ 1024 \<le> \<bar>real_of_int m\<bar> / 2 ^ n" by simp
  then show ?thesis using x0 by (simp add: binary64_def u t)
qed

lemma ties_even_lower: "\<lfloor>r\<rfloor> \<le> ties_even r"
  by (simp add: ties_even_def)


lemma ulp_pos: "0 < ulp x"
  by (simp add: ulp_def)

lemma binary64_zero: "binary64 0 = Num 0"
  by (simp add: binary64_def)

lemma binary64_nonneg:
  assumes "0 \<le> x"
  shows "num_le (Num 0) (binary64 x)"
proof (cases "x = 0")
  case True
  then show ?thesis by (simp add: binary64_zero)
next
  case False
  with assms have x: "0 < x" by simp
  then have "0 \<le> x / ulp x" using ulp_pos [of x] by simp
  then have "0 \<le> \<lfloor>x / ulp x\<rfloor>" by simp
  then have "0 \<le> ties_even (x / ulp x)" using ties_even_lower [of "x / ulp x"] by linarith
  then have "0 \<le> real_of_int (ties_even (x / ulp x)) * ulp x"
    using ulp_pos [of x] by simp
  then show ?thesis using x by (simp add: binary64_def)
qed



lemma ties_even_error: "\<bar>of_int (ties_even r) - r\<bar> \<le> 1 / 2"
  unfolding ties_even_def by (auto; linarith)

lemma binary64_relative_error:
  assumes normal: "2 powr (- 1022) \<le> \<bar>x\<bar>" and finite: "binary64 x = Num y"
  shows "\<bar>y - x\<bar> \<le> \<bar>x\<bar> / 2 ^ 53"
proof -
  have "(0::real) < 2 powr (- 1022)" by simp
  with normal have pos: "0 < \<bar>x\<bar>" by linarith
  then have x0: "x \<noteq> 0" by simp
  define e where "e = \<lfloor>log 2 \<bar>x\<bar>\<rfloor>"
  have "- 1022 \<le> log 2 \<bar>x\<bar>" using normal pos by (simp add: le_log_iff)
  then have "- 1022 \<le> e" unfolding e_def by linarith
  then have b: "binade x = e" by (simp add: binade_def e_def)
  have "of_int e \<le> log 2 \<bar>x\<bar>" unfolding e_def by simp
  then have le: "2 powr of_int e \<le> \<bar>x\<bar>" using pos by (simp add: powr_le_iff)
  have u: "ulp x = 2 powr of_int e / 2 ^ 52"
    by (simp add: ulp_def b powr_diff)
  have y: "y = of_int (ties_even (x / ulp x)) * ulp x"
    using finite x0 by (simp add: binary64_def split: if_splits)
  have "y - x = (of_int (ties_even (x / ulp x)) - x / ulp x) * ulp x"
    using ulp_pos [of x] by (simp add: y field_simps)
  then have "\<bar>y - x\<bar> = \<bar>of_int (ties_even (x / ulp x)) - x / ulp x\<bar> * ulp x"
    using ulp_pos [of x] by (simp add: abs_mult)
  also have "\<dots> \<le> 1 / 2 * ulp x"
    using ties_even_error [of "x / ulp x"] ulp_pos [of x] by (intro mult_right_mono) simp_all
  also have "\<dots> = 2 powr of_int e / 2 ^ 53" by (simp add: u)
  also have "\<dots> \<le> \<bar>x\<bar> / 2 ^ 53" using le by (simp add: divide_right_mono)
  finally show ?thesis .
qed

lemma binary64_overflow:
  assumes "2 ^ 1024 \<le> x"
  shows "binary64 x = PInf"
proof -
  have "(0::real) < 2 ^ 1024" by simp
  with assms have x: "0 < x" by linarith
  define e where "e = \<lfloor>log 2 x\<rfloor>"
  have "(2::real) powr 1024 \<le> x" using assms by (simp add: powr_numeral)
  then have "1024 \<le> log 2 x" using x by (simp add: le_log_iff)
  then have e1024: "1024 \<le> e" unfolding e_def by linarith
  then have b: "binade x = e" using x by (simp add: binade_def e_def)
  have "of_int e \<le> log 2 x" unfolding e_def by simp
  then have le: "2 powr of_int e \<le> x" using x by (simp add: powr_le_iff)
  have u: "ulp x = 2 powr of_int e / 2 ^ 52" by (simp add: ulp_def b powr_diff)
  have "2 ^ 52 \<le> x / ulp x" using le by (simp add: u field_simps)
  then have "of_int (2 ^ 52) \<le> x / ulp x" by simp
  then have "2 ^ 52 \<le> \<lfloor>x / ulp x\<rfloor>" by (simp only: le_floor_iff)
  then have "2 ^ 52 \<le> ties_even (x / ulp x)" using ties_even_lower [of "x / ulp x"] by linarith
  then have "(2::real) ^ 52 \<le> of_int (ties_even (x / ulp x))"
    by (metis of_int_le_iff of_int_numeral of_int_power)
  then have "2 ^ 52 * ulp x \<le> of_int (ties_even (x / ulp x)) * ulp x"
    using ulp_pos [of x] by (simp add: mult_right_mono)
  moreover have "2 ^ 52 * ulp x = 2 powr of_int e" by (simp add: u)
  moreover have "(2::real) powr 1024 \<le> 2 powr of_int e" using e1024 by (intro powr_mono) simp_all
  ultimately have "(2::real) powr 1024 \<le> of_int (ties_even (x / ulp x)) * ulp x" by linarith
  then have "2 ^ 1024 \<le> \<bar>of_int (ties_even (x / ulp x)) * ulp x\<bar>" by (simp add: powr_numeral)
  then show ?thesis using x unfolding binary64_def by (simp del: power_numeral)
qed




section \<open>Power factor\<close>




section \<open>Reactive power\<close>

lemma rounding_zero:
  assumes "rnd = exact \<or> rnd = binary64"
  shows "rnd 0 = Num 0"
  using assms binary64_zero by (auto simp: exact_def)

lemma rounding_nonneg:
  assumes "rnd = exact \<or> rnd = binary64" "0 \<le> x"
  shows "num_le (Num 0) (rnd x)"
  using assms binary64_nonneg [of x] by (auto simp: exact_def)

lemma positive_or_zero:
  "num_le (Num 0) (if num_gt v (Num 0) then v else Num 0)"
  by (cases v) (simp_all add: num_gt_def)

lemma Math_sqrt_nonneg:
  assumes "rnd = exact \<or> rnd = binary64" "num_le (Num 0) x"
  shows "num_le (Num 0) (Math_sqrt rnd x)"
  using assms rounding_nonneg [of rnd "sqrt a" for a] by (cases x) simp_all

lemma num_sub_same:
  assumes "rnd = exact \<or> rnd = binary64"
  shows "\<not> num_gt (num_sub rnd x x) (Num 0)"
  using rounding_zero [OF assms] by (cases x) (simp_all add: num_gt_def)

text \<open>
  C7. For every \<open>S > 0\<close> and every \<open>P\<close> with \<open>0 \<le> P \<le> S\<close>, \<open>reactive_power_kvar(S, P)\<close>
  does not raise and returns a value that is not negative (and not not-a-number), and it
  returns exactly 0 when \<open>P\<close> equals \<open>S\<close>; in exact arithmetic and in double precision.
\<close>

theorem reactive_power_never_negative:
  assumes "rnd = exact \<or> rnd = binary64" and "0 < S" and "0 \<le> P" and "P \<le> S"
  shows "\<exists>q. reactive_power_kvar rnd (Num S) (Num P) = Inr q \<and> num_le (Num 0) q \<and>
             (P = S \<longrightarrow> q = Num 0)"
proof -
  let ?val = "num_sub rnd (num_pow2 rnd (Num S)) (num_pow2 rnd (Num P))"
  let ?q = "Math_sqrt rnd (if num_gt ?val (Num 0) then ?val else Num 0)"
  have "reactive_power_kvar rnd (Num S) (Num P) = Inr ?q"
    using assms by (simp add: reactive_power_kvar_def num_gt_def Let_def)
  moreover have "num_le (Num 0) ?q"
    using assms(1) positive_or_zero by (rule Math_sqrt_nonneg)
  moreover have "?q = Num 0" if "P = S"
    using that num_sub_same [OF assms(1)] rounding_zero [OF assms(1)] by simp
  ultimately show ?thesis by blast
qed

theorem reactive_power_never_negative_witness:
  "(binary64 = exact \<or> binary64 = binary64) \<and> (0::real) < 100 \<and> (0::real) \<le> 100 \<and> (100::real) \<le> 100 \<and>
   reactive_power_kvar binary64 (Num 100) (Num 100) = Inr (Num 0)"
  using reactive_power_never_negative [of binary64 100 100] by auto

section \<open>Phase angle\<close>

subsection \<open>The double nearest to \<open>\<pi>\<close>\<close>









subsection \<open>Degrees\<close>














section \<open>Load\<close>

subsection \<open>The square root of three\<close>

lemma sqrt3_lower: "15600926743107923 / 2 ^ 53 < sqrt 3"
  by (rule real_less_rsqrt) (simp add: power2_eq_square)

lemma sqrt3_upper: "sqrt 3 < 15600926743107925 / 2 ^ 53"
  by (rule real_less_lsqrt) (simp_all add: power2_eq_square)

lemma sqrt3_double: "binary64 (sqrt 3) = Num (7800463371553962 / 2 ^ 52)"
  using binary64_nearest [of 52 "sqrt 3" 7800463371553962] sqrt3_lower sqrt3_upper by simp

subsection \<open>Three-phase against single-phase\<close>

text \<open>
  In double precision, at 1 V, 5 A and power factor 1: the three-phase formula rounds
  \<open>\<surd>3 * 1\<close>, then \<open>* 5\<close>, \<open>* 1\<close> and \<open>/ 1000\<close>; the single-phase result is the double
  nearest to 0.005, which is then multiplied by the double nearest to \<open>\<surd>3\<close>.
\<close>

lemma three_step1:
  "binary64 (7800463371553962 / 2 ^ 52 * 1) = Num (7800463371553962 / 2 ^ 52)"
  using binary64_nearest [of 52 "7800463371553962 / 2 ^ 52" 7800463371553962] by simp

lemma three_step2:
  "binary64 (7800463371553962 / 2 ^ 52 * 5) = Num (4875289607221226 / 2 ^ 49)"
  using binary64_nearest [of 49 "7800463371553962 / 2 ^ 52 * 5" 4875289607221226] by simp

lemma three_step3:
  "binary64 (4875289607221226 / 2 ^ 49 * 1) = Num (4875289607221226 / 2 ^ 49)"
  using binary64_nearest [of 49 "4875289607221226 / 2 ^ 49" 4875289607221226] by simp

lemma three_step4:
  "binary64 (4875289607221226 / 2 ^ 49 / 1000) = Num (4992296557794535 / 2 ^ 59)"
  using binary64_nearest [of 59 "4875289607221226 / 2 ^ 49 / 1000" 4992296557794535] by simp

lemma double_5: "binary64 5 = Num 5"
  using binary64_nearest [of 50 5 "5 * 2 ^ 50"] by simp

lemma single_step3: "binary64 (5 / 1000) = Num (5764607523034235 / 2 ^ 60)"
  using binary64_nearest [of 60 "5 / 1000" 5764607523034235] by simp

lemma sqrt3_times_single:
  "binary64 (7800463371553962 / 2 ^ 52 * (5764607523034235 / 2 ^ 60)) =
   Num (4992296557794536 / 2 ^ 59)"
  using binary64_nearest
    [of 59 "7800463371553962 / 2 ^ 52 * (5764607523034235 / 2 ^ 60)" 4992296557794536]
  by simp

lemmas load_1_5_1 =
  sqrt3_double [simplified] three_step1 [simplified] three_step2 [simplified]
  three_step3 [simplified] three_step4 [simplified] double_5 single_step3 [simplified]
  sqrt3_times_single [simplified]

text \<open>
  C6, as stated, fails in double precision: at volts 1, amps 5 and power factor 1,
  \<open>load_kw_three\<close> returns \<open>4992296557794535 / 2^59\<close> (0.008660254037844385), while
  \<open>Math.sqrt(3)\<close> times the result of \<open>load_kw_single\<close> is \<open>4992296557794536 / 2^59\<close>
  (0.008660254037844387).
\<close>

theorem load_three_sqrt3_single_counterexample:
  "load_kw_three binary64 (Num 1) (Num 5) (Num 1) = Inr (Num (4992296557794535 / 2 ^ 59)) \<and>
   load_kw_single binary64 (Num 1) (Num 5) (Num 1) = Inr (Num (5764607523034235 / 2 ^ 60)) \<and>
   num_mul binary64 (Math_sqrt binary64 (Num 3)) (Num (5764607523034235 / 2 ^ 60)) =
     Num (4992296557794536 / 2 ^ 59) \<and>
   (4992296557794535 / 2 ^ 59 :: real) \<noteq> 4992296557794536 / 2 ^ 59"
  by (simp add: load_kw_three_def load_kw_single_def num_ge_def load_1_5_1)

text \<open>
  C6, amended. For every volts, amps and power factor accepted by the load validation
  (\<open>volts > 0\<close>, \<open>amps > 0\<close>, \<open>0 \<le> pf \<le> 1\<close>), both functions return, and in exact arithmetic
  \<open>load_kw_three(volts, amps, pf)\<close> equals \<open>Math.sqrt(3)\<close> times
  \<open>load_kw_single(volts, amps, pf)\<close>; in double precision, where every product is rounded,
  the two results can differ in the last bit.
\<close>

theorem load_three_sqrt3_single:
  assumes "0 < volts" and "0 < amps" and "0 \<le> pf" and "pf \<le> 1"
  shows "\<exists>y. load_kw_single exact (Num volts) (Num amps) (Num pf) = Inr y \<and>
             load_kw_three exact (Num volts) (Num amps) (Num pf) =
               Inr (num_mul exact (Math_sqrt exact (Num 3)) y)"
  using assms by (simp add: load_kw_single_def load_kw_three_def num_ge_def exact_def)

theorem load_three_sqrt3_single_witness:
  "(0::real) < 480 \<and> (0::real) < 10 \<and> (0::real) \<le> 4 / 5 \<and> (4 / 5 :: real) \<le> 1 \<and>
   load_kw_single exact (Num 480) (Num 10) (Num (4 / 5)) = Inr (Num (96 / 25)) \<and>
   load_kw_three exact (Num 480) (Num 10) (Num (4 / 5)) = Inr (Num (sqrt 3 * (96 / 25)))"
  using load_three_sqrt3_single [of 480 10 "4 / 5"]
  by (simp add: load_kw_single_def num_ge_def exact_def)

subsection \<open>Scenario 5\<close>

text \<open>
  480 V, 10 A, power factor 0.8 (in double precision the double nearest to 0.8), through
  the three-phase calculator and its format.
\<close>

lemma scenario_step1:
  "binary64 (7800463371553962 / 2 ^ 52 * 480) = Num (7312934410831839 / 2 ^ 43)"
  using binary64_nearest [of 43 "7800463371553962 / 2 ^ 52 * 480" 7312934410831839] by simp

lemma scenario_step2:
  "binary64 (7312934410831839 / 2 ^ 43 * 10) = Num (4570584006769899 / 2 ^ 39)"
  using binary64_nearest [of 39 "7312934410831839 / 2 ^ 43 * 10" 4570584006769899] by simp

lemma double_0_8: "binary64 (4 / 5) = Num (7205759403792794 / 2 ^ 53)"
  using binary64_nearest [of 53 "4 / 5" 7205759403792794] by simp

lemma scenario_step3:
  "binary64 (4570584006769899 / 2 ^ 39 * (7205759403792794 / 2 ^ 53)) =
   Num (7312934410831839 / 2 ^ 40)"
  using binary64_nearest
    [of 40 "4570584006769899 / 2 ^ 39 * (7205759403792794 / 2 ^ 53)" 7312934410831839]
  by simp

lemma scenario_step4:
  "binary64 (7312934410831839 / 2 ^ 40 / 1000) = Num (7488444836691803 / 2 ^ 50)"
  using binary64_nearest [of 50 "7312934410831839 / 2 ^ 40 / 1000" 7488444836691803] by simp

lemmas load_480_10 =
  sqrt3_double [simplified] scenario_step1 [simplified] scenario_step2 [simplified]
  double_0_8 [simplified] scenario_step3 [simplified] scenario_step4 [simplified]

lemma load_kw_three_scenario_double:
  "load_kw_three binary64 (Num 480) (Num 10) (binary64 (4 / 5)) =
   Inr (Num (7488444836691803 / 2 ^ 50))"
  by (simp add: load_kw_three_def num_ge_def load_480_10)

lemma load_kw_three_scenario_exact:
  "load_kw_three exact (Num 480) (Num 10) (exact (4 / 5)) = Inr (Num (3840 * sqrt 3 / 1000))"
  by (simp add: load_kw_three_def num_ge_def exact_def)

lemma digits_6651: "digits 6651 = ''6651''"
  by (simp add: digits.simps digit_char_def)

lemma fixed_digits_scenario_double: "fixed_digits 3 (7488444836691803 / 2 ^ 50) = ''6.651''"
  by (simp add: fixed_digits_def digits_6651 Let_def)

lemma floor_scenario_exact: "\<lfloor>3840 * sqrt 3 + 1 / 2\<rfloor> = 6651"
  using sqrt3_lower sqrt3_upper by (simp add: floor_eq_iff)

lemma fixed_digits_scenario_exact: "fixed_digits 3 (3840 * sqrt 3 / 1000) = ''6.651''"
  using floor_scenario_exact by (simp add: fixed_digits_def digits_6651 Let_def)

lemma scenario_in_range: "\<not> 10 ^ 21 \<le> \<bar>3840 * sqrt 3 / 1000\<bar>"
  using sqrt3_upper by simp

lemma scenario_shown:
  assumes "rnd = exact \<or> rnd = binary64"
  shows "compute_and_show ts rnd LoadThree
           (object [(''volts'', Number (Num 480)), (''amps'', Number (Num 10)),
                    (''pf'', Number (rnd (4 / 5)))]) =
         Shown ''P = 6.651 kW'' False"
proof -
  have "compute_and_show ts exact LoadThree
          (object [(''volts'', Number (Num 480)), (''amps'', Number (Num 10)),
                   (''pf'', Number (exact (4 / 5)))]) = Shown ''P = 6.651 kW'' False"
    using scenario_in_range
    by (simp add: compute_and_show_def object_def and_then_def showResult_def
        load_kw_three_scenario_exact [simplified] fixed_digits_scenario_exact [simplified])
  moreover have "compute_and_show ts binary64 LoadThree
          (object [(''volts'', Number (Num 480)), (''amps'', Number (Num 10)),
                   (''pf'', Number (binary64 (4 / 5)))]) = Shown ''P = 6.651 kW'' False"
    by (simp add: compute_and_show_def object_def and_then_def showResult_def
        load_kw_three_scenario_double [simplified] fixed_digits_scenario_double [simplified])
  ultimately show ?thesis using assms by blast
qed

text \<open>
  C1, as stated, fails: with volts 480, amps 10 and power factor 0.8 the three-phase
  calculator does not display \<open>P = 6.650 kW\<close>.
\<close>

theorem scenario5_counterexample:
  "compute_and_show (\<lambda>x. []) binary64 LoadThree
     (object [(''volts'', Number (Num 480)), (''amps'', Number (Num 10)),
              (''pf'', Number (binary64 (4 / 5)))]) \<noteq>
   Shown ''P = 6.650 kW'' False"
  by (simp add: scenario_shown)

text \<open>
  C1, amended. For the Load (Three-Phase) calculator, computing with volts 480, amps 10 and
  power factor 0.8 and then formatting the result yields exactly the display string
  \<open>P = 6.651 kW\<close>, shown without the error flag; in double precision and in exact
  arithmetic alike.
\<close>

theorem scenario5_display:
  "compute_and_show ts binary64 LoadThree
     (object [(''volts'', Number (Num 480)), (''amps'', Number (Num 10)),
              (''pf'', Number (binary64 (4 / 5)))]) = Shown ''P = 6.651 kW'' False \<and>
   compute_and_show ts exact LoadThree
     (object [(''volts'', Number (Num 480)), (''amps'', Number (Num 10)),
              (''pf'', Number (exact (4 / 5)))]) = Shown ''P = 6.651 kW'' False"
  by (simp add: scenario_shown)

section \<open>Ohm's law\<close>

lemma object_vir [simp]:
  "vir v i r ''volts'' = Number v" "vir v i r ''amps'' = Number i" "vir v i r ''ohms'' = Number r"
  by (simp_all add: object_def)

text \<open>
  In double precision a product or a quotient of finite numbers can overflow to an infinity,
  and it is within one part in \<open>2^53\<close> of the exact result when it is finite and does not
  underflow.
\<close>

lemma rounding_relative_error:
  assumes "rnd = exact \<or> rnd = binary64" and "x = 0 \<or> 2 powr (- 1022) \<le> \<bar>x\<bar>" and "rnd x = Num y"
  shows "\<bar>y - x\<bar> \<le> \<bar>x\<bar> / 2 ^ 53"
  using assms(1)
proof
  assume "rnd = exact"
  then show ?thesis using assms(3) by (simp add: exact_def)
next
  assume b: "rnd = binary64"
  show ?thesis
  proof (cases "x = 0")
    case True
    then show ?thesis using assms(3) b by (simp add: binary64_zero)
  next
    case False
    then show ?thesis using assms(2,3) b binary64_relative_error by simp
  qed
qed

lemma double_quotients:
  "binary64 (120 / 12) = Num 10" "binary64 (120 / 10) = Num 12" "binary64 (10 * 12) = Num 120"
  using binary64_nearest [of 49 10 "10 * 2 ^ 49"] binary64_nearest [of 49 12 "12 * 2 ^ 49"]
    binary64_nearest [of 46 120 "120 * 2 ^ 46"]
  by simp_all

text \<open>
  C4, as stated, fails in double precision: with \<open>V = 2^1000\<close> and \<open>R = 2^-1000\<close> provided, the
  solved current is Infinity, and Infinity times \<open>R\<close> is Infinity, not \<open>V\<close>; with \<open>I = 0\<close> and
  \<open>R\<close> = Infinity provided, the solved voltage is not-a-number.
\<close>

theorem ohms_law_overflow_counterexample:
  "compute binary64 OhmsLaw (vir (Num (2 ^ 1000)) NaN (Num (1 / 2 ^ 1000))) =
     Inr (vir (Num (2 ^ 1000)) PInf (Num (1 / 2 ^ 1000))) \<and>
   num_mul binary64 PInf (Num (1 / 2 ^ 1000)) = PInf \<and>
   compute binary64 OhmsLaw (vir NaN (Num 0) PInf) = Inr (vir NaN (Num 0) PInf)"
proof -
  have "binary64 (2 ^ 1000 / (1 / 2 ^ 1000)) = PInf"
    by (rule binary64_overflow) simp
  then show ?thesis by (simp add: ohms_law_compute_def)
qed

text \<open>
  C4, amended. For the Ohm's Law calculator and finite provided values: when exactly two of
  V, I, R are provided (the third being not-a-number), compute returns the two provided
  quantities unchanged and the third as the product \<open>I * R\<close> or the quotient \<open>V / R\<close> or
  \<open>V / I\<close> that the arithmetic computes; when that result is a finite number and the exact
  product or quotient is zero or at least \<open>2^-1022\<close> in magnitude (no overflow and no
  underflow), \<open>V = I * R\<close> holds to a relative error of \<open>2^-53\<close>. When the solving divides by
  a provided zero (\<open>R = 0\<close> when solving for I, \<open>I = 0\<close> when solving for R) it fails with a
  CalcError, and when all three or fewer than two are provided it fails with a CalcError.
\<close>

theorem ohms_law_two_of_three:
  assumes "rnd = exact \<or> rnd = binary64"
  shows
  "(\<exists>V. compute rnd OhmsLaw (vir NaN (Num i) (Num r)) = Inr (vir V (Num i) (Num r)) \<and>
        V = num_mul rnd (Num i) (Num r) \<and>
        (\<forall>a. V = Num a \<longrightarrow> i * r = 0 \<or> 2 powr (- 1022) \<le> \<bar>i * r\<bar> \<longrightarrow>
             \<bar>a - i * r\<bar> \<le> \<bar>i * r\<bar> / 2 ^ 53)) \<and>
   (r \<noteq> 0 \<longrightarrow>
     (\<exists>I. compute rnd OhmsLaw (vir (Num v) NaN (Num r)) = Inr (vir (Num v) I (Num r)) \<and>
          I = num_div rnd (Num v) (Num r) \<and>
          (\<forall>a. I = Num a \<longrightarrow> v / r = 0 \<or> 2 powr (- 1022) \<le> \<bar>v / r\<bar> \<longrightarrow>
               \<bar>a * r - v\<bar> \<le> \<bar>v\<bar> / 2 ^ 53))) \<and>
   (i \<noteq> 0 \<longrightarrow>
     (\<exists>R. compute rnd OhmsLaw (vir (Num v) (Num i) NaN) = Inr (vir (Num v) (Num i) R) \<and>
          R = num_div rnd (Num v) (Num i) \<and>
          (\<forall>a. R = Num a \<longrightarrow> v / i = 0 \<or> 2 powr (- 1022) \<le> \<bar>v / i\<bar> \<longrightarrow>
               \<bar>i * a - v\<bar> \<le> \<bar>v\<bar> / 2 ^ 53))) \<and>
   compute rnd OhmsLaw (vir (Num v) NaN (Num 0)) = Inl (CalcError ''R must not be 0'') \<and>
   compute rnd OhmsLaw (vir (Num v) (Num 0) NaN) = Inl (CalcError ''I must not be 0'') \<and>
   (length (filter (\<lambda>x. \<not> isNaN x) [x, y, z]) \<noteq> 2 \<longrightarrow>
      compute rnd OhmsLaw (vir x y z) = Inl (CalcError ''Provide exactly two of V, I, R''))"
proof -
  have quotient: "\<bar>q * d - n\<bar> \<le> \<bar>n\<bar> / 2 ^ 53"
    if "d \<noteq> 0" "rnd (n / d) = Num q" "n / d = 0 \<or> 2 powr (- 1022) \<le> \<bar>n / d\<bar>" for n d q
  proof -
    have "\<bar>q - n / d\<bar> \<le> \<bar>n / d\<bar> / 2 ^ 53"
      using assms that(3,2) by (rule rounding_relative_error)
    then have "\<bar>q - n / d\<bar> * \<bar>d\<bar> \<le> \<bar>n / d\<bar> / 2 ^ 53 * \<bar>d\<bar>"
      by (intro mult_right_mono) simp_all
    moreover have "\<bar>q - n / d\<bar> * \<bar>d\<bar> = \<bar>q * d - n\<bar>"
      using that(1) by (simp add: abs_mult [symmetric] field_simps)
    moreover have "\<bar>n / d\<bar> / 2 ^ 53 * \<bar>d\<bar> = \<bar>n\<bar> / 2 ^ 53"
      using that(1) by (simp add: abs_divide)
    ultimately show ?thesis by simp
  qed
  have solve_V:
    "\<exists>V. compute rnd OhmsLaw (vir NaN (Num i) (Num r)) = Inr (vir V (Num i) (Num r)) \<and>
        V = num_mul rnd (Num i) (Num r) \<and>
        (\<forall>a. V = Num a \<longrightarrow> i * r = 0 \<or> 2 powr (- 1022) \<le> \<bar>i * r\<bar> \<longrightarrow>
             \<bar>a - i * r\<bar> \<le> \<bar>i * r\<bar> / 2 ^ 53)"
  proof (intro exI conjI allI impI)
    show "compute rnd OhmsLaw (vir NaN (Num i) (Num r)) =
        Inr (vir (num_mul rnd (Num i) (Num r)) (Num i) (Num r))"
      by (simp add: ohms_law_compute_def)
    show "num_mul rnd (Num i) (Num r) = num_mul rnd (Num i) (Num r)" ..
    fix a
    assume "num_mul rnd (Num i) (Num r) = Num a" "i * r = 0 \<or> 2 powr (- 1022) \<le> \<bar>i * r\<bar>"
    then have "rnd (i * r) = Num a" by simp
    with assms \<open>i * r = 0 \<or> 2 powr (- 1022) \<le> \<bar>i * r\<bar>\<close>
    show "\<bar>a - i * r\<bar> \<le> \<bar>i * r\<bar> / 2 ^ 53" by (rule rounding_relative_error)
  qed
  have solve_I:
    "\<exists>I. compute rnd OhmsLaw (vir (Num v) NaN (Num r)) = Inr (vir (Num v) I (Num r)) \<and>
          I = num_div rnd (Num v) (Num r) \<and>
          (\<forall>a. I = Num a \<longrightarrow> v / r = 0 \<or> 2 powr (- 1022) \<le> \<bar>v / r\<bar> \<longrightarrow>
               \<bar>a * r - v\<bar> \<le> \<bar>v\<bar> / 2 ^ 53)" if r: "r \<noteq> 0"
  proof (intro exI conjI allI impI)
    show "compute rnd OhmsLaw (vir (Num v) NaN (Num r)) =
        Inr (vir (Num v) (num_div rnd (Num v) (Num r)) (Num r))"
      using r by (simp add: ohms_law_compute_def)
    show "num_div rnd (Num v) (Num r) = num_div rnd (Num v) (Num r)" ..
    fix a
    assume "num_div rnd (Num v) (Num r) = Num a" "v / r = 0 \<or> 2 powr (- 1022) \<le> \<bar>v / r\<bar>"
    then show "\<bar>a * r - v\<bar> \<le> \<bar>v\<bar> / 2 ^ 53" using r by (intro quotient) simp_all
  qed
  have solve_R:
    "\<exists>R. compute rnd OhmsLaw (vir (Num v) (Num i) NaN) = Inr (vir (Num v) (Num i) R) \<and>
          R = num_div rnd (Num v) (Num i) \<and>
          (\<forall>a. R = Num a \<longrightarrow> v / i = 0 \<or> 2 powr (- 1022) \<le> \<bar>v / i\<bar> \<longrightarrow>
               \<bar>i * a - v\<bar> \<le> \<bar>v\<bar> / 2 ^ 53)" if i: "i \<noteq> 0"
  proof (intro exI conjI allI impI)
    show "compute rnd OhmsLaw (vir (Num v) (Num i) NaN) =
        Inr (vir (Num v) (Num i) (num_div rnd (Num v) (Num i)))"
      using i by (simp add: ohms_law_compute_def)
    show "num_div rnd (Num v) (Num i) = num_div rnd (Num v) (Num i)" ..
    fix a
    assume "num_div rnd (Num v) (Num i) = Num a" "v / i = 0 \<or> 2 powr (- 1022) \<le> \<bar>v / i\<bar>"
    then have "\<bar>a * i - v\<bar> \<le> \<bar>v\<bar> / 2 ^ 53" using i by (intro quotient) simp_all
    then show "\<bar>i * a - v\<bar> \<le> \<bar>v\<bar> / 2 ^ 53" by (simp add: mult.commute)
  qed
  have errors:
    "compute rnd OhmsLaw (vir (Num v) NaN (Num 0)) = Inl (CalcError ''R must not be 0'')"
    "compute rnd OhmsLaw (vir (Num v) (Num 0) NaN) = Inl (CalcError ''I must not be 0'')"
    "length (filter (\<lambda>x. \<not> isNaN x) [x, y, z]) \<noteq> 2 \<longrightarrow>
      compute rnd OhmsLaw (vir x y z) = Inl (CalcError ''Provide exactly two of V, I, R'')"
    by (simp_all add: ohms_law_compute_def)
  from solve_V solve_I solve_R errors show ?thesis by blast
qed

theorem ohms_law_two_of_three_witness:
  "compute binary64 OhmsLaw (vir (Num 120) (Num 10) NaN) = Inr (vir (Num 120) (Num 10) (Num 12)) \<and>
   compute binary64 OhmsLaw (vir (Num 120) NaN (Num 12)) = Inr (vir (Num 120) (Num 10) (Num 12)) \<and>
   compute binary64 OhmsLaw (vir NaN (Num 10) (Num 12)) = Inr (vir (Num 120) (Num 10) (Num 12)) \<and>
   \<bar>10 * 12 - 120 :: real\<bar> \<le> \<bar>120\<bar> / 2 ^ 53 \<and>
   compute binary64 OhmsLaw (vir (Num 120) (Num 10) (Num 12)) =
     Inl (CalcError ''Provide exactly two of V, I, R'')"
  using ohms_law_two_of_three [of binary64 10 12 120 "Num 120" "Num 10" "Num 12"]
  by (simp add: double_quotients [simplified])

section \<open>Not-a-number inputs\<close>

text \<open>
  C10, as stated, fails: with a not-a-number power factor and 0 V, the single-phase calculator
  raises \<open>Volts must be > 0\<close>, not the power factor message.
\<close>

theorem load_nan_power_factor_counterexample:
  "compute exact LoadSingle
     (object [(''volts'', Number (Num 0)), (''amps'', Number (Num 10)), (''pf'', Number NaN)]) =
   Inl (CalcError ''Volts must be > 0'')"
  by (simp add: object_def and_then_def load_kw_single_def)

text \<open>
  C10, amended. For the Load (Single-Phase) and Load (Three-Phase) calculators, if the power
  factor input is not-a-number then compute raises a CalcError, for every volts and amps; its
  message is \<open>Power factor must be between 0 and 1\<close> whenever volts and amps pass their
  positivity checks (neither is \<open>\<le> 0\<close>, which not-a-number passes), and otherwise the message
  of the first check that fails.
\<close>

theorem load_nan_power_factor:
  "compute rnd LoadSingle
     (object [(''volts'', Number volts), (''amps'', Number amps), (''pf'', Number NaN)]) =
   Inl (CalcError (if num_le volts (Num 0) then ''Volts must be > 0''
                   else if num_le amps (Num 0) then ''Amps must be > 0''
                   else ''Power factor must be between 0 and 1'')) \<and>
   compute rnd LoadThree
     (object [(''volts'', Number volts), (''amps'', Number amps), (''pf'', Number NaN)]) =
   Inl (CalcError (if num_le volts (Num 0) then ''Volts must be > 0''
                   else if num_le amps (Num 0) then ''Amps must be > 0''
                   else ''Power factor must be between 0 and 1''))"
  by (simp add: object_def and_then_def load_kw_single_def load_kw_three_def num_ge_def)

lemma foldl_collect_Number:
  assumes "(\<exists>n. acc k = Number n) \<or> k \<in> fst ` set form"
  shows "\<exists>n. foldl (\<lambda>values (k, text).
              let raw = trim (filter (\<lambda>c. c \<noteq> CHR '','') text);
                  num = (if raw = [] then NaN else to_num raw)
              in values (k := Number num)) acc form k = Number n"
  using assms
proof (induction form arbitrary: acc)
  case Nil
  then show ?case by simp
next
  case (Cons a form)
  obtain k' s where a: "a = (k', s)" by (cases a)
  show ?case
    unfolding foldl_Cons
    by (rule Cons.IH) (use Cons.prems a in \<open>auto simp: Let_def\<close>)
qed

lemma collectInputs_Number:
  assumes "k \<in> fst ` set form"
  shows "\<exists>n. collectInputs to_num form k = Number n"
  unfolding collectInputs_def using assms by (intro foldl_collect_Number) simp

lemma trim_empty: "trim [] = []"
  by code_simp

lemma collectInputs_blank: "collectInputs to_num (form @ [(k, [])]) k = Number NaN"
  by (simp add: collectInputs_def trim_empty)

lemma toFixed_Number: "\<exists>t. toFixed ts f (Number x) = Inr t"
  by (cases x) simp_all

lemma toFixed_Number_no_raise [simp]: "toFixed ts f (Number x) \<noteq> Inl e"
  by (cases x) simp_all

lemma pure_raise_CalcError:
  "power_factor rnd p s = Inl e \<Longrightarrow> \<exists>m. e = CalcError m"
  "reactive_power_kvar rnd s p = Inl e \<Longrightarrow> \<exists>m. e = CalcError m"
  "phase_angle_deg acos rnd s p = Inl e \<Longrightarrow> \<exists>m. e = CalcError m"
  "load_kw_single rnd v a f = Inl e \<Longrightarrow> \<exists>m. e = CalcError m"
  "load_kw_three rnd v a f = Inl e \<Longrightarrow> \<exists>m. e = CalcError m"
  by (auto simp: power_factor_def reactive_power_kvar_def phase_angle_deg_def load_kw_single_def
      load_kw_three_def Let_def split: if_splits sum.splits)

lemma ohms_law_raise_CalcError:
  "ohms_law_compute rnd d = Inl e \<Longrightarrow> \<exists>m. e = CalcError m"
  by (auto simp: ohms_law_compute_def Let_def split: if_splits)

lemma compute_raise_CalcError:
  assumes "compute rnd c d = Inl e"
  shows "\<exists>m. e = CalcError m"
  using assms
  by (cases c) (auto simp: and_then_def split: sum.splits dest: pure_raise_CalcError ohms_law_raise_CalcError)

lemma ohms_law_format:
  assumes "ohms_law_compute rnd d = Inr out"
    and "\<exists>n. d ''volts'' = Number n" "\<exists>n. d ''amps'' = Number n" "\<exists>n. d ''ohms'' = Number n"
  shows "\<exists>t. format ts OhmsLaw out = Inr t"
proof -
  have "(\<exists>n. out ''volts'' = Number n) \<and> (\<exists>n. out ''amps'' = Number n) \<and> (\<exists>n. out ''ohms'' = Number n)"
    using assms by (auto simp: ohms_law_compute_def Let_def object_def split: if_splits)
  then obtain a b c where "out ''volts'' = Number a" "out ''amps'' = Number b" "out ''ohms'' = Number c"
    by blast
  moreover obtain ta tb tc where "toFixed ts 3 (Number a) = Inr ta" "toFixed ts 3 (Number b) = Inr tb"
    "toFixed ts 3 (Number c) = Inr tc" using toFixed_Number by meson
  ultimately show ?thesis by (simp add: and_then_def)
qed

lemma compute_format:
  assumes "compute rnd c d = Inr out" and "\<forall>k\<in>set (input_keys c). \<exists>n. d k = Number n"
  shows "\<exists>t. format ts c out = Inr t"
proof (cases c)
  case OhmsLaw
  then show ?thesis using assms ohms_law_format [of rnd d out ts] by simp
qed (use assms in \<open>auto simp: and_then_def object_def split: sum.splits\<close>)

lemma compute_and_show_cases:
  assumes "\<forall>k\<in>set (input_keys c). \<exists>n. d k = Number n"
  shows "(\<exists>m. compute_and_show ts rnd c d = Shown (''[error] '' @ m) True) \<or>
         (\<exists>t. compute_and_show ts rnd c d = Shown t False)"
proof (cases "compute rnd c d")
  case (Inl e)
  then obtain m where "e = CalcError m" using compute_raise_CalcError by blast
  with Inl show ?thesis by (simp add: compute_and_show_def showResult_def)
next
  case (Inr out)
  then obtain t where "format ts c out = Inr t" using compute_format assms by blast
  with Inr show ?thesis by (simp add: compute_and_show_def showResult_def)
qed

text \<open>
  On a form that carries the fields of the calculator, whatever they parse to, the click
  handler never reaches the generic \<open>[unexpected]\<close> report: it shows \<open>[error]\<close> and a
  message with the error flag, or a formatted result without it.
\<close>

lemma compute_click_never_unexpected:
  assumes "map fst form = input_keys c"
  shows "(\<exists>m. compute_click to_num ts rnd c form = Shown (''[error] '' @ m) True) \<or>
         (\<exists>t. compute_click to_num ts rnd c form = Shown t False)"
proof -
  from assms have "set (input_keys c) = fst ` set form" by (metis set_map)
  then have "\<forall>k\<in>set (input_keys c). \<exists>n. collectInputs to_num form k = Number n"
    using collectInputs_Number by blast
  then show ?thesis unfolding compute_click_def by (rule compute_and_show_cases)
qed

lemma num_sub_NaN: "num_sub rnd x NaN = NaN"
  by (cases x) simp_all

text \<open>
  C3 (the code departs from it). A required field that parses to not-a-number is not
  exposed as an error: Power Factor with a not-a-number kW (a blank field) and 100 kVA
  displays \<open>PF = NaN\<close>, and Reactive Power with 100 kVA and a not-a-number kW displays
  \<open>Q = 0.000 kVAr\<close>, both without the error flag. The range tests of \<open>power_factor\<close> and
  \<open>reactive_power_kvar\<close> let not-a-number through, where the negated test of the power
  factor in the load functions rejects it.
\<close>

theorem nan_field_displayed_as_result:
  "compute_and_show (\<lambda>x. []) binary64 PowerFactor
     (object [(''p_kw'', Number NaN), (''s_kva'', Number (Num 100))]) = Shown ''PF = NaN'' False \<and>
   compute_and_show (\<lambda>x. []) binary64 ReactivePower
     (object [(''s_kva'', Number (Num 100)), (''p_kw'', Number NaN)]) =
     Shown ''Q = 0.000 kVAr'' False \<and>
   compute_click (\<lambda>raw. Num 100) (\<lambda>x. []) binary64 PowerFactor
     [(''p_kw'', ''''), (''s_kva'', ''100'')] = Shown ''PF = NaN'' False"
proof -
  have t: "trim [] = []" "trim ''100'' = ''100''" by code_simp+
  have d0: "digits 0 = ''0''" by (simp add: digits.simps digit_char_def)
  have z: "fixed_digits 3 0 = ''0.000''"
    by (simp add: fixed_digits_def d0 Let_def eval_nat_numeral)
  have "collectInputs (\<lambda>raw. Num 100) [(''p_kw'', ''''), (''s_kva'', ''100'')] =
        ((\<lambda>k. Undefined) (''p_kw'' := Number NaN)) (''s_kva'' := Number (Num 100))"
    by (simp add: collectInputs_def t)
  then show ?thesis
    by (simp add: compute_click_def compute_and_show_def object_def and_then_def power_factor_def
        reactive_power_kvar_def num_gt_def showResult_def num_sub_NaN binary64_zero z)
qed

section \<open>The caches on activation and installation\<close>

text \<open>
  The two \<open>activate\<close> listeners together keep only the current cache, in whichever order
  their deletions happen.
\<close>

lemma keys_cache_delete: "keys (cache_delete k cs) = filter (\<lambda>n. n \<noteq> k) (keys cs)"
  by (induction cs) (simp_all add: keys_def cache_delete_def)

lemma fold_cache_delete: "fold cache_delete ks cs = filter (\<lambda>c. fst c \<notin> set ks) cs"
proof (induction ks arbitrary: cs)
  case Nil
  then show ?case by simp
next
  case (Cons k ks)
  show ?case by (simp add: Cons.IH) (simp add: cache_delete_def conj_commute)
qed

lemma activate_first_eq:
  "activate_first now cs = filter (\<lambda>c. \<not> (prefix ''ppc-cache-'' (fst c) \<and> fst c \<noteq> CACHE now)) cs"
  unfolding activate_first_def fold_cache_delete keys_def
  by (rule filter_cong) auto

lemma activate_second_eq: "activate_second now cs = filter (\<lambda>c. fst c = CACHE now) cs"
  unfolding activate_second_def fold_cache_delete keys_def
  by (rule filter_cong) auto

lemma activate_eq: "activate now cs = filter (\<lambda>c. fst c = CACHE now) cs"
  unfolding activate_def activate_first_eq activate_second_eq
  by (auto simp: filter_filter intro: filter_cong)

lemma activate_order: "activate_first now (activate_second now cs) = activate now cs"
  unfolding activate_eq activate_first_eq activate_second_eq
  by (auto simp: filter_filter intro: filter_cong)

lemma activate_together:
  "fold cache_delete
     (filter (\<lambda>k. prefix ''ppc-cache-'' k \<and> k \<noteq> CACHE now) (keys cs) @
      filter (\<lambda>k. k \<noteq> CACHE now) (keys cs)) cs = activate now cs"
  unfolding activate_eq fold_cache_delete keys_def
  by (rule filter_cong) auto

lemma CACHE_2: "CACHE 2 = ''ppc-cache-v2-2''"
  by (simp add: CACHE_def digits.simps digit_char_def)

text \<open>
  C2 (the code departs from it). With the caches \<open>fonts-v1\<close>, \<open>ppc-cache-v2-1\<close> and the
  current \<open>ppc-cache-v2-2\<close>, the first listener alone deletes only \<open>ppc-cache-v2-1\<close>, but the
  event as a whole also deletes \<open>fonts-v1\<close>, whose name does not carry the prefix.
\<close>

theorem activate_deletes_foreign_cache:
  "activate_first 2
     [(''fonts-v1'', [''./font.woff'']), (''ppc-cache-v2-1'', ASSETS), (''ppc-cache-v2-2'', ASSETS)] =
     [(''fonts-v1'', [''./font.woff'']), (''ppc-cache-v2-2'', ASSETS)] \<and>
   activate 2
     [(''fonts-v1'', [''./font.woff'']), (''ppc-cache-v2-1'', ASSETS), (''ppc-cache-v2-2'', ASSETS)] =
     [(''ppc-cache-v2-2'', ASSETS)]"
  by (simp add: activate_eq activate_first_eq CACHE_2)

text \<open>
  C9, as stated, fails: the list holds three image or icon assets, not four, and two paths
  of the document.
\<close>

theorem asset_list_counterexample:
  "length (filter (\<lambda>p. asset_kind p = Image) (filter Boolean ASSETS)) \<noteq> 4 \<and>
   length (filter (\<lambda>p. asset_kind p = Image) (filter Boolean ASSETS)) = 3 \<and>
   length (filter (\<lambda>p. asset_kind p = Document) (filter Boolean ASSETS)) = 2"
  by (simp add: ASSETS_def Boolean_def asset_kind_def suffix_to_prefix)

text \<open>
  C9, amended. The fixed asset list populated into the cache at install consists of the root
  document under two paths (\<open>./\<close> and \<open>./index.html\<close>), the stylesheet, the script, the
  manifest, and three image or icon assets.
\<close>

theorem asset_list_installed:
  "install now [] =
     [(CACHE now,
       [''./'', ''./index.html'', ''./styles.css'', ''./app.js'', ''./manifest.json'',
        ''./assets/icon-512.png'', ''./assets/icon.svg'', ''./assets/background.png''])] \<and>
   map asset_kind (filter Boolean ASSETS) =
     [Document, Document, Stylesheet, Script, Manifest, Image, Image, Image]"
  by (simp add: install_def cache_open_def addAll_def keys_def ASSETS_def Boolean_def
      asset_kind_def suffix_to_prefix)

end
